theory Spec2Isabelle
  imports Main "HOL-Library.Word"
begin

unbundle bit_operations_syntax

section \<open>Machine types, errors and panics\<close>

type_synonym u8 = "8 word"
type_synonym u16 = "16 word"
type_synonym u32 = "32 word"
type_synonym bytes = "u8 list"

text \<open>
  A Go \<open>error\<close> value carries its message. A run-time panic (nil dereference, failed type
  assertion without \<open>ok\<close>, slice bounds) is not an error value: it unwinds through every
  caller, so no \<open>fmt.Errorf\<close> on the way rewrites it.
\<close>

datatype panic = NilDereference | TypeAssertion | SliceBounds

datatype error = Error string | Panic panic

text \<open>\<open>fmt.Errorf(prefix + "%v", err)\<close>: the prefix followed by the message of \<open>err\<close>.\<close>

fun Errorf :: "string \<Rightarrow> error \<Rightarrow> error" where
  "Errorf prefix (Error msg) = Error (prefix @ msg)"
| "Errorf prefix (Panic p) = Panic p"

text \<open>The verb \<open>%d\<close> of the \<open>fmt\<close> package on an unsigned value: its decimal digits.\<close>

definition digit :: "nat \<Rightarrow> char" where
  "digit d = ''0123456789'' ! d"

function showNat :: "nat \<Rightarrow> string" where
  "showNat n = (if n < 10 then [digit n] else showNat (n div 10) @ [digit (n mod 10)])"
  by pat_completeness auto
termination
  by (relation "measure id") auto

declare showNat.simps [simp del]

section \<open>Packets as the handlers read them\<close>

text \<open>
  The payload of an IP packet is a \<open>util.Message\<close>; the code only ever asserts it to be
  a \<open>*util.Buffer\<close>. \<open>OtherPayload\<close> is every other dynamic type, nil included.
\<close>

datatype Payload = Buffer bytes | OtherPayload

type_synonym IP = bytes
type_synonym HardwareAddr = bytes

record IPv4 =
  v4Length :: u16
  v4Protocol :: u8
  v4NWSrc :: IP
  v4NWDst :: IP
  v4Data :: Payload

record IPv6 =
  v6NextHeader :: u8
  v6NWSrc :: IP
  v6NWDst :: IP
  v6Data :: Payload

text \<open>
  The \<open>util.Message\<close> inside the Ethernet frame: an IPv4 packet, an IPv6 packet, a
  message of another type (ARP, ...), or the nil interface.
\<close>

datatype Message = MsgIPv4 IPv4 | MsgIPv6 IPv6 | MsgOther | MsgNil

record Ethernet =
  HWDst :: HardwareAddr
  HWSrc :: HardwareAddr
  Ethertype :: u16
  EthData :: Message

text \<open>
  A match field of the packet-in holds a value; for a register it is an
  \<open>*ofctrl.NXRegister\<close> with 32 bits of data. \<open>Matchers\<close> is looked up by field name;
  a name that is absent gives the nil \<open>*MatchField\<close>.
\<close>

datatype MatchValue = NXRegister u32 | OtherValue

type_synonym Matchers = "string \<rightharpoonup> MatchValue"

type_synonym TableIDType = u8

record PacketIn =
  TableId :: u8
  Matches :: Matchers
  Data :: Ethernet

record TCP =
  PortSrc :: u16
  PortDst :: u16
  SeqNum :: u32
  AckNum :: u32

section \<open>Constants and collaborators that live outside the files at hand\<close>

type_synonym Range = "nat \<times> nat"

record NXRange =
  ofs :: nat
  nbits :: nat

text \<open>
  The constants and tables of the packages \<open>openflow\<close> and \<open>opsv1alpha1\<close> that the
  packet-in code reads. Their values are not fixed here: every function below takes
  them as the parameter \<open>k\<close>. A Go map is a partial map; a missing key reads as the
  zero value. \<open>ProtocolsToString\<close> has \<open>int32\<close> keys; the code looks up a protocol
  number of eight bits, widened.
\<close>

record Consts =
  CustomReasonMarkReg :: u32
  CustomReasonMarkRange :: Range
  CustomReasonLogging :: u32
  CustomReasonReject :: u32
  DispositionMarkReg :: u32
  APDispositionMarkRange :: Range
  DispositionAllow :: u32
  CNPNotAllowConjIDReg :: u32
  EgressReg :: u32
  IngressReg :: u32
  GetAntreaPolicyEgressTables :: "TableIDType list"
  EgressRuleTable :: TableIDType
  GetAntreaPolicyIngressTables :: "TableIDType list"
  IngressRuleTable :: TableIDType
  GetFlowTableName :: "TableIDType \<Rightarrow> string"
  DispositionToString :: "u32 \<rightharpoonup> string"
  ProtocolsToString :: "u32 \<rightharpoonup> string"

text \<open>
  Functions of the libraries the code calls (\<open>net\<close>, \<open>libOpenflow\<close>, \<open>ofnet\<close>), taken
  as the parameter \<open>lib\<close>.
\<close>

record Libs =
  IPString :: "IP \<Rightarrow> string"
  HWString :: "HardwareAddr \<Rightarrow> string"
  ToNXRange :: "Range \<Rightarrow> NXRange"
  GetUint32ValueWithRange :: "u32 \<Rightarrow> NXRange \<Rightarrow> u32"
  IPMarshalBinary :: "Message \<Rightarrow> bytes"
  TCPUnmarshalBinary :: "bytes \<Rightarrow> error + TCP"

text \<open>
  The OpenFlow client of the controller. \<open>'b\<close> is the packet-out builder it hands out.
  What a call returns is the client's business; that a call was made is recorded in
  the world below.
\<close>

record 'b OFClient =
  GetPolicyInfoFromConjunction :: "u32 \<Rightarrow> string \<times> string"
  GenBasePacketOutBuilder ::
    "string \<Rightarrow> string \<Rightarrow> string \<Rightarrow> string \<Rightarrow> u32 \<Rightarrow> u32 \<Rightarrow> error + 'b"
  SendTCPReject :: "'b \<Rightarrow> u16 \<Rightarrow> u16 \<Rightarrow> u32 \<Rightarrow> u32 \<Rightarrow> bool \<Rightarrow> error option"
  SendICMPReject :: "'b \<Rightarrow> bytes \<Rightarrow> bool \<Rightarrow> error option"

record InterfaceConfig =
  OFPort :: u32

record 'b Controller =
  ofClient :: "'b OFClient"
  GetInterfaceByIP :: "string \<rightharpoonup> InterfaceConfig"

section \<open>The world the handlers act on\<close>

text \<open>
  \<open>AntreaPolicyLogger\<close> is the package-level logger: \<open>None\<close> while it is nil, otherwise
  the records handed to \<open>Printf\<close> so far, oldest first (the date and time header and the
  rotation are the logger's own). \<open>ofCalls\<close> lists the calls made on the OpenFlow client
  that build or send a packet-out. \<open>invoked\<close> is a history variable: each handler
  appends its name on entry, so that "the handler was invoked" can be stated.
\<close>

datatype 'b OFCall =
    GenBasePacketOutBuilderCall string string string string u32 u32
  | SendTCPRejectCall 'b u16 u16 u32 u32 bool
  | SendICMPRejectCall 'b bytes bool

datatype Handler = HLogPacket | HRejectRequest

record 'b World =
  AntreaPolicyLogger :: "string list option"
  ofCalls :: "'b OFCall list"
  invoked :: "Handler list"

section \<open>Audit logging and reject synthesis on packet-in\<close>

definition EthHdrLen :: u16 where "EthHdrLen = 14"
definition IPv4HdrLen :: u16 where "IPv4HdrLen = 20"
definition IPv6HdrLen :: u16 where "IPv6HdrLen = 40"
definition TCPHdrLen :: u16 where "TCPHdrLen = 20"
definition ICMPUnusedHdrLen :: u16 where "ICMPUnusedHdrLen = 4"

definition IPv4_MSG :: u16 where "IPv4_MSG = 0x0800"
definition IPv6_MSG :: u16 where "IPv6_MSG = 0x86dd"
definition EtherTypeIPv4 :: u16 where "EtherTypeIPv4 = 0x0800"
definition Type_TCP :: u8 where "Type_TCP = 6"

record logInfo =
  tableName :: string
  npRef :: string
  disposition :: string
  ofPriority :: string
  srcIP :: string
  destIP :: string
  pktLength :: u16
  protocolStr :: string

definition new_logInfo :: logInfo where
  "new_logInfo = \<lparr>tableName = [], npRef = [], disposition = [], ofPriority = [],
     srcIP = [], destIP = [], pktLength = 0, protocolStr = []\<rparr>"

definition getMatchRegField :: "Matchers \<Rightarrow> u32 \<Rightarrow> MatchValue option" where
  "getMatchRegField matchers regNum = matchers (''NXM_NX_REG'' @ showNat (unat regNum))"

text \<open>The \<open>for ... range\<close> loops of \<open>getMatch\<close>: is the table one of the listed ones?\<close>

primrec tableIn :: "TableIDType \<Rightarrow> TableIDType list \<Rightarrow> bool" where
  "tableIn tableID [] = False"
| "tableIn tableID (t # ts) = (if tableID = t then True else tableIn tableID ts)"

definition getMatch :: "Consts \<Rightarrow> Matchers \<Rightarrow> TableIDType \<Rightarrow> u32 \<Rightarrow> MatchValue option" where
  "getMatch k matchers tableID disp =
     (if disp \<noteq> DispositionAllow k then getMatchRegField matchers (CNPNotAllowConjIDReg k)
      else if tableIn tableID (GetAntreaPolicyEgressTables k @ [EgressRuleTable k])
        then getMatchRegField matchers (EgressReg k)
      else if tableIn tableID (GetAntreaPolicyIngressTables k @ [IngressRuleTable k])
        then getMatchRegField matchers (IngressReg k)
      else None)"

text \<open>
  \<open>regMatch.GetValue()\<close> on the nil match field dereferences nil; a value that is not a
  register fails the checked type assertion.
\<close>

definition getInfoInReg :: "Libs \<Rightarrow> MatchValue option \<Rightarrow> NXRange option \<Rightarrow> error + u32" where
  "getInfoInReg lib regMatch rng =
     (case regMatch of
        None \<Rightarrow> Inl (Panic NilDereference)
      | Some OtherValue \<Rightarrow> Inl (Error ''register value cannot be retrieved'')
      | Some (NXRegister regData) \<Rightarrow>
          (case rng of
             Some r \<Rightarrow> Inr (GetUint32ValueWithRange lib regData r)
           | None \<Rightarrow> Inr regData))"

definition mapGet :: "('a \<rightharpoonup> string) \<Rightarrow> 'a \<Rightarrow> string" where
  "mapGet m x = (case m x of None \<Rightarrow> [] | Some s \<Rightarrow> s)"

definition getNetworkPolicyInfo ::
  "Consts \<Rightarrow> Libs \<Rightarrow> 'b Controller \<Rightarrow> PacketIn \<Rightarrow> logInfo \<Rightarrow> error + logInfo" where
  "getNetworkPolicyInfo k lib c pktIn ob0 =
     (let matchers = Matches pktIn;
          tableID = TableId pktIn;
          ob1 = ob0\<lparr>tableName := GetFlowTableName k tableID\<rparr>
      in case getInfoInReg lib (getMatchRegField matchers (DispositionMarkReg k))
                (Some (ToNXRange lib (APDispositionMarkRange k))) of
           Inl e \<Rightarrow> Inl (Errorf ''received error while unloading disposition from reg: '' e)
         | Inr info \<Rightarrow>
             (let ob2 = ob1\<lparr>disposition := mapGet (DispositionToString k) info\<rparr>
              in case getInfoInReg lib (getMatch k matchers tableID info) None of
                   Inl e \<Rightarrow>
                     Inl (Errorf ''received error while unloading conjunction id from reg: '' e)
                 | Inr conjID \<Rightarrow>
                     Inr (ob2\<lparr>npRef := fst (GetPolicyInfoFromConjunction (ofClient c) conjID),
                              ofPriority := snd (GetPolicyInfoFromConjunction (ofClient c) conjID)\<rparr>)))"

definition getPacketInfo :: "Consts \<Rightarrow> Libs \<Rightarrow> PacketIn \<Rightarrow> logInfo \<Rightarrow> error + logInfo" where
  "getPacketInfo k lib pktIn ob =
     (if Ethertype (Data pktIn) = EtherTypeIPv4 then
        (case EthData (Data pktIn) of
           MsgIPv4 ipPacket \<Rightarrow>
             Inr (ob\<lparr>srcIP := IPString lib (v4NWSrc ipPacket),
                     destIP := IPString lib (v4NWDst ipPacket),
                     pktLength := v4Length ipPacket,
                     protocolStr := mapGet (ProtocolsToString k) (ucast (v4Protocol ipPacket))\<rparr>)
         | _ \<Rightarrow> Inl (Error ''invalid IPv4 packet''))
      else Inr ob)"

text \<open>The record \<open>logPacket\<close> formats: \<open>"%s %s %s %s SRC: %s DEST: %s %d %s"\<close>.\<close>

definition logLine :: "logInfo \<Rightarrow> string" where
  "logLine ob =
     tableName ob @ '' '' @ npRef ob @ '' '' @ disposition ob @ '' '' @ ofPriority ob @
     '' SRC: '' @ srcIP ob @ '' DEST: '' @ destIP ob @ '' '' @
     showNat (unat (pktLength ob)) @ '' '' @ protocolStr ob"

definition logPacket ::
  "Consts \<Rightarrow> Libs \<Rightarrow> 'b Controller \<Rightarrow> PacketIn \<Rightarrow> 'b World \<Rightarrow> error option \<times> 'b World" where
  "logPacket k lib c pktIn w0 =
     (let w = w0\<lparr>invoked := invoked w0 @ [HLogPacket]\<rparr>
      in case getNetworkPolicyInfo k lib c pktIn new_logInfo of
           Inl e \<Rightarrow>
             (Some (Errorf ''received error while retrieving NetworkPolicy info: '' e), w)
         | Inr ob1 \<Rightarrow>
             (case getPacketInfo k lib pktIn ob1 of
                Inl e \<Rightarrow>
                  (Some (Errorf ''received error while handling packetin for NetworkPolicy: '' e), w)
              | Inr ob \<Rightarrow>
                  (case AntreaPolicyLogger w of
                     None \<Rightarrow> (Some (Panic NilDereference), w)
                   | Some records \<Rightarrow>
                       (None, w\<lparr>AntreaPolicyLogger := Some (records @ [logLine ob])\<rparr>))))"

text \<open>
  \<open>getTCPHeaderData\<close>: the type switch has no default, so for a message that is neither
  IPv4 nor IPv6 the nil byte slice goes to \<open>UnmarshalBinary\<close>. \<open>Buffer.MarshalBinary\<close>
  gives the buffer's bytes and no error. The result is (source port, destination port,
  sequence number, acknowledgment number) of the reject packet.
\<close>

definition getTCPHeaderData :: "Libs \<Rightarrow> Message \<Rightarrow> error + (u16 \<times> u16 \<times> u32 \<times> u32)" where
  "getTCPHeaderData lib ipPkt =
     (case (case ipPkt of
              MsgIPv4 ip4 \<Rightarrow>
                (case v4Data ip4 of Buffer bs \<Rightarrow> Inr bs | OtherPayload \<Rightarrow> Inl (Panic TypeAssertion))
            | MsgIPv6 ip6 \<Rightarrow>
                (case v6Data ip6 of Buffer bs \<Rightarrow> Inr bs | OtherPayload \<Rightarrow> Inl (Panic TypeAssertion))
            | _ \<Rightarrow> Inr []) of
        Inl e \<Rightarrow> Inl e
      | Inr tcpBytes \<Rightarrow>
          (case TCPUnmarshalBinary lib tcpBytes of
             Inl e \<Rightarrow> Inl e
           | Inr tcpIn \<Rightarrow> Inr (PortDst tcpIn, PortSrc tcpIn, 0, SeqNum tcpIn + 1)))"

definition getBasePacketOutBuilder ::
  "'b Controller \<Rightarrow> string \<Rightarrow> string \<Rightarrow> string \<Rightarrow> string \<Rightarrow> 'b World \<Rightarrow> (error + 'b) \<times> 'b World" where
  "getBasePacketOutBuilder c srcMAC dstMAC srcIPs dstIPs w =
     (case (GetInterfaceByIP c srcIPs, GetInterfaceByIP c dstIPs) of
        (Some sIface, Some dIface) \<Rightarrow>
          (GenBasePacketOutBuilder (ofClient c) srcMAC dstMAC srcIPs dstIPs (OFPort sIface) (OFPort dIface),
           w\<lparr>ofCalls := ofCalls w @
                [GenBasePacketOutBuilderCall srcMAC dstMAC srcIPs dstIPs (OFPort sIface) (OFPort dIface)]\<rparr>)
      | _ \<Rightarrow> (Inl (Error ''couldn't find Pod config by IP''), w))"

text \<open>
  The first \<open>switch\<close> of \<open>rejectRequest\<close>: source and destination IP of the reject packet
  (those of the intercepted packet, swapped), the protocol and the IP header length.
  The type assertions are unchecked; another Ethertype leaves the zero values.
\<close>

definition rejectIPData :: "Libs \<Rightarrow> Ethernet \<Rightarrow> error + (string \<times> string \<times> u8 \<times> u16)" where
  "rejectIPData lib eth =
     (if Ethertype eth = IPv4_MSG then
        (case EthData eth of
           MsgIPv4 ipv4In \<Rightarrow>
             Inr (IPString lib (v4NWDst ipv4In), IPString lib (v4NWSrc ipv4In),
                  v4Protocol ipv4In, IPv4HdrLen)
         | _ \<Rightarrow> Inl (Panic TypeAssertion))
      else if Ethertype eth = IPv6_MSG then
        (case EthData eth of
           MsgIPv6 ipv6In \<Rightarrow>
             Inr (IPString lib (v6NWDst ipv6In), IPString lib (v6NWSrc ipv6In),
                  v6NextHeader ipv6In, IPv6HdrLen)
         | _ \<Rightarrow> Inl (Panic TypeAssertion))
      else Inr ([], [], 0, 0))"

text \<open>
  Go's \<open>copy(dst, src)\<close> overwrites the first \<open>min (len dst) (len src)\<close> bytes of \<open>dst\<close>;
  \<open>binary.BigEndian.PutUint32(b, 0)\<close> zeroes the first four bytes of \<open>b\<close>.
\<close>

definition copy :: "bytes \<Rightarrow> bytes \<Rightarrow> bytes" where
  "copy dst src = take (length dst) src @ drop (length src) dst"

definition PutUint32_zero :: "bytes \<Rightarrow> bytes" where
  "PutUint32_zero b = replicate 4 0 @ drop 4 b"

text \<open>
  The \<open>default\<close> branch of \<open>rejectRequest\<close>: the ICMP payload. \<open>MarshalBinary\<close> is called
  on the message inside the frame (a nil interface there is a nil dereference) and its
  error is dropped; the slice expression \<open>ipHdr[:ipHdrLen+8]\<close> panics when the marshalled
  packet is shorter than that (the capacity of the marshalled slice is taken to be its
  length).
\<close>

definition buildICMPData :: "Libs \<Rightarrow> Message \<Rightarrow> u16 \<Rightarrow> error + bytes" where
  "buildICMPData lib msg ipHdrLen =
     (if msg = MsgNil then Inl (Panic NilDereference)
      else
        (let ipHdr = IPMarshalBinary lib msg;
             ICMPData = replicate (unat (ICMPUnusedHdrLen + ipHdrLen + 8)) (0 :: u8);
             ICMPData1 = PutUint32_zero (take (unat ICMPUnusedHdrLen) ICMPData)
                           @ drop (unat ICMPUnusedHdrLen) ICMPData
         in if length ipHdr < unat (ipHdrLen + 8) then Inl (Panic SliceBounds)
            else Inr (take (unat ICMPUnusedHdrLen) ICMPData1 @
                      copy (drop (unat ICMPUnusedHdrLen) ICMPData1)
                           (take (unat (ipHdrLen + 8)) ipHdr))))"

definition rejectRequest ::
  "Libs \<Rightarrow> 'b Controller \<Rightarrow> PacketIn \<Rightarrow> 'b World \<Rightarrow> error option \<times> 'b World" where
  "rejectRequest lib c pktIn w0 =
     (let w = w0\<lparr>invoked := invoked w0 @ [HRejectRequest]\<rparr>;
          srcMAC = HWDst (Data pktIn);
          dstMAC = HWSrc (Data pktIn)
      in case rejectIPData lib (Data pktIn) of
           Inl e \<Rightarrow> (Some e, w)
         | Inr (srcIPs, dstIPs, prot, ipHdrLen) \<Rightarrow>
             (case getBasePacketOutBuilder c (HWString lib srcMAC) (HWString lib dstMAC)
                     srcIPs dstIPs w of
                (Inl e, w1) \<Rightarrow> (Some e, w1)
              | (Inr pktOutBuilder, w1) \<Rightarrow>
                  if prot = Type_TCP then
                    (case getTCPHeaderData lib (EthData (Data pktIn)) of
                       Inl e \<Rightarrow> (Some e, w1)
                     | Inr (TCPSrcPort, TCPDstPort, TCPSeqNum, TCPAckNum) \<Rightarrow>
                         (SendTCPReject (ofClient c) pktOutBuilder
                            TCPSrcPort TCPDstPort TCPSeqNum TCPAckNum False,
                          w1\<lparr>ofCalls := ofCalls w1 @
                               [SendTCPRejectCall pktOutBuilder
                                  TCPSrcPort TCPDstPort TCPSeqNum TCPAckNum False]\<rparr>))
                  else
                    (case buildICMPData lib (EthData (Data pktIn)) ipHdrLen of
                       Inl e \<Rightarrow> (Some e, w1)
                     | Inr ICMPData \<Rightarrow>
                         (SendICMPReject (ofClient c) pktOutBuilder ICMPData False,
                          w1\<lparr>ofCalls := ofCalls w1 @
                               [SendICMPRejectCall pktOutBuilder ICMPData False]\<rparr>))))"

text \<open>
  \<open>HandlePacketIn\<close>. The packet-in arrives by pointer: \<open>None\<close> is the nil pointer. The
  custom reasons are read from their register; then the logging handler runs if its
  bit is set and, unless it returned an error, the reject handler if its bit is set.
\<close>

definition HandlePacketIn ::
  "Consts \<Rightarrow> Libs \<Rightarrow> 'b Controller \<Rightarrow> PacketIn option \<Rightarrow> 'b World \<Rightarrow> error option \<times> 'b World" where
  "HandlePacketIn k lib c pktInPtr w =
     (case pktInPtr of
        None \<Rightarrow> (Some (Error ''empty packetin for Antrea Policy''), w)
      | Some pktIn \<Rightarrow>
          (let matchers = Matches pktIn;
               regMatch = getMatchRegField matchers (CustomReasonMarkReg k)
           in case getInfoInReg lib regMatch (Some (ToNXRange lib (CustomReasonMarkRange k))) of
                Inl e \<Rightarrow>
                  (Some (Errorf ''received error while unloading customReason from reg: '' e), w)
              | Inr customReasons \<Rightarrow>
                  (case (if customReasons AND CustomReasonLogging k = CustomReasonLogging k
                         then logPacket k lib c pktIn w else (None, w)) of
                     (Some e, w1) \<Rightarrow> (Some e, w1)
                   | (None, w1) \<Rightarrow>
                       (if customReasons AND CustomReasonReject k = CustomReasonReject k
                        then rejectRequest lib c pktIn w1 else (None, w1)))))"

section \<open>The policy query handler of the agent API server\<close>

text \<open>
  \<open>NetworkPolicyType\<close> is a string type in Go; \<open>NoType\<close> is its zero value, which a map
  lookup gives for a missing key.
\<close>

datatype NetworkPolicyType =
  NoType | K8sNetworkPolicy | AntreaClusterNetworkPolicy | AntreaNetworkPolicy

record NetworkPolicyQueryFilter =
  Name :: string
  Namespace :: string
  Pod :: string
  SourceType :: NetworkPolicyType

definition mapToNetworkPolicyType :: "string \<rightharpoonup> NetworkPolicyType" where
  "mapToNetworkPolicyType =
     [''np'' \<mapsto> K8sNetworkPolicy,
      ''NP'' \<mapsto> K8sNetworkPolicy,
      ''k8snp'' \<mapsto> K8sNetworkPolicy,
      ''K8snp'' \<mapsto> K8sNetworkPolicy,
      ''K8sNP'' \<mapsto> K8sNetworkPolicy,
      ''cnp'' \<mapsto> AntreaClusterNetworkPolicy,
      ''CNP'' \<mapsto> AntreaClusterNetworkPolicy,
      ''anp'' \<mapsto> AntreaNetworkPolicy,
      ''ANP'' \<mapsto> AntreaNetworkPolicy]"

text \<open>\<open>url.Values\<close> maps a key to its values; \<open>Get\<close> is the first value, or the empty string.\<close>

type_synonym Values = "string \<rightharpoonup> string list"

definition Values_Get :: "Values \<Rightarrow> string \<Rightarrow> string" where
  "Values_Get query key = (case query key of Some (v # vs) \<Rightarrow> v | _ \<Rightarrow> [])"

definition NewFilterFromURLQuery :: "Values \<Rightarrow> NetworkPolicyQueryFilter" where
  "NewFilterFromURLQuery query =
     \<lparr>Name = Values_Get query ''name'',
      Namespace = Values_Get query ''namespace'',
      Pod = Values_Get query ''pod'',
      SourceType = (case mapToNetworkPolicyType (Values_Get query ''reference'') of
                      None \<Rightarrow> NoType | Some t \<Rightarrow> t)\<rparr>"

text \<open>
  The agent querier: its interface store and its network policy querier. \<open>'np\<close> is a
  network policy, \<open>'i\<close> an interface configuration. \<open>Encode\<close> is the JSON encoder on the
  response writer: \<open>None\<close> when it succeeds, the message of its error otherwise.
\<close>

record ('np, 'i) AgentQuerier =
  GetContainerInterfacesByPod :: "string \<Rightarrow> string \<Rightarrow> 'i list"
  GetAppliedNetworkPolicies :: "string \<Rightarrow> string \<Rightarrow> NetworkPolicyQueryFilter \<Rightarrow> 'np list"
  GetNetworkPolicies :: "NetworkPolicyQueryFilter \<Rightarrow> 'np list"
  Encode :: "'np list \<Rightarrow> string option"

definition StatusBadRequest :: nat where "StatusBadRequest = 400"
definition StatusInternalServerError :: nat where "StatusInternalServerError = 500"

text \<open>
  What the handler leaves behind: the response (the encoded \<open>NetworkPolicyList\<close> with
  its items, or an \<open>http.Error\<close> with message and status) and the queries it made, in
  order.
\<close>

datatype 'np Response = NetworkPolicyList "'np list" | HttpError string nat

datatype QueryCall =
    InterfacesByPodQuery string string
  | AppliedNetworkPoliciesQuery string string NetworkPolicyQueryFilter
  | NetworkPoliciesQuery NetworkPolicyQueryFilter

definition encodeResponse :: "('np, 'i) AgentQuerier \<Rightarrow> 'np list \<Rightarrow> 'np Response" where
  "encodeResponse aq nps =
     (case Encode aq nps of
        None \<Rightarrow> NetworkPolicyList nps
      | Some msg \<Rightarrow> HttpError (''Failed to encode response: '' @ msg) StatusInternalServerError)"

definition HandleFunc :: "('np, 'i) AgentQuerier \<Rightarrow> Values \<Rightarrow> 'np Response \<times> QueryCall list" where
  "HandleFunc aq query =
     (let npFilter = NewFilterFromURLQuery query
      in if Pod npFilter \<noteq> [] then
           (if Namespace npFilter = [] then
              (HttpError ''With a pod name, namespace must be provided'' StatusBadRequest, [])
            else
              (let interfaces = GetContainerInterfacesByPod aq (Pod npFilter) (Namespace npFilter)
               in if length interfaces > 0 then
                    (encodeResponse aq
                       (GetAppliedNetworkPolicies aq (Pod npFilter) (Namespace npFilter) npFilter),
                     [InterfacesByPodQuery (Pod npFilter) (Namespace npFilter),
                      AppliedNetworkPoliciesQuery (Pod npFilter) (Namespace npFilter) npFilter])
                  else
                    (encodeResponse aq [],
                     [InterfacesByPodQuery (Pod npFilter) (Namespace npFilter)])))
         else (encodeResponse aq (GetNetworkPolicies aq npFilter), [NetworkPoliciesQuery npFilter]))"

section \<open>Connection store and flow records\<close>

text \<open>
  The types are those the integration test builds: a five-tuple, and a connection with
  its counters, its two tuples and the Pod identity of either side.
\<close>

record Tuple =
  SourceAddress :: IP
  DestinationAddress :: IP
  Protocol :: u8
  SourcePort :: u16
  DestinationPort :: u16

record Connection =
  StartTime :: int
  StopTime :: int
  OriginalPackets :: "64 word"
  OriginalBytes :: "64 word"
  ReversePackets :: "64 word"
  ReverseBytes :: "64 word"
  TupleOrig :: Tuple
  TupleReply :: Tuple
  SourcePodName :: string
  SourcePodNamespace :: string
  DestinationPodName :: string
  DestinationPodNamespace :: string

text \<open>
  The packages \<open>flowexporter\<close>, \<open>connections\<close> and \<open>flowrecords\<close> are missing: only
  their integration test is at hand. What follows is written from the specification.
\<close>

text \<open>
  Modelled from the spec: the missing \<open>ConnectionKey\<close> and \<open>NewConnectionKey\<close>. A key is
  the canonical five-tuple, derived from the connection's original-direction tuple.
\<close>

type_synonym ConnectionKey = Tuple

definition NewConnectionKey :: "Connection \<Rightarrow> ConnectionKey" where
  "NewConnectionKey conn = TupleOrig conn"

text \<open>
  Modelled from the spec: the missing \<open>FlowRecord\<close>, which wraps a connection (its export
  bookkeeping, for which the specification gives no rule, is left out), and the state
  of the missing connection store and flow record builder: a keyed table of
  connections and a keyed table of flow records.
\<close>

record FlowRecord =
  Conn :: Connection

record FlowExporter =
  connections :: "ConnectionKey \<rightharpoonup> Connection"
  recordsMap :: "ConnectionKey \<rightharpoonup> FlowRecord"

text \<open>Modelled from the spec: the point lookup \<open>GetConnByKey\<close> of the missing store.\<close>

definition GetConnByKey :: "FlowExporter \<Rightarrow> ConnectionKey \<Rightarrow> Connection option" where
  "GetConnByKey s key = connections s key"

text \<open>
  Modelled from the spec: \<open>FlushConnectionStore\<close> of the missing store clears all entries
  of the store, and nothing else.
\<close>

definition FlushConnectionStore :: "FlowExporter \<Rightarrow> FlowExporter" where
  "FlushConnectionStore s = s\<lparr>connections := Map.empty\<rparr>"

text \<open>
  Modelled from the spec: \<open>BuildFlowRecords\<close> of the missing flow record builder takes a
  pass over the store, producing or refreshing one record for each key present there;
  it never mutates the store and deletes no record. It returns no error.
\<close>

definition BuildFlowRecords :: "FlowExporter \<Rightarrow> error option \<times> FlowExporter" where
  "BuildFlowRecords s =
     (None,
      s\<lparr>recordsMap := (\<lambda>key. case connections s key of
                                 Some conn \<Rightarrow> Some \<lparr>Conn = conn\<rparr>
                               | None \<Rightarrow> recordsMap s key)\<rparr>)"

text \<open>Modelled from the spec: the point lookup \<open>GetFlowRecordByConnKey\<close> of the missing builder.\<close>

definition GetFlowRecordByConnKey :: "FlowExporter \<Rightarrow> ConnectionKey \<Rightarrow> FlowRecord option" where
  "GetFlowRecordByConnKey s key = recordsMap s key"

section \<open>Concrete inputs\<close>

text \<open>
  One instance of the constants, of the library functions and of a controller, and a few
  packet-ins, on which the theorems below are run. The register layout follows the
  agent's: custom reasons in bits 24-25 and the disposition in bits 21-22 of register 0.
\<close>

definition be16 :: "u8 \<Rightarrow> u8 \<Rightarrow> u16" where
  "be16 a b = push_bit 8 (ucast a) OR ucast b"

definition be32 :: "u8 \<Rightarrow> u8 \<Rightarrow> u8 \<Rightarrow> u8 \<Rightarrow> u32" where
  "be32 a b c d =
     push_bit 24 (ucast a) OR push_bit 16 (ucast b) OR push_bit 8 (ucast c) OR ucast d"

definition hexdigit :: "nat \<Rightarrow> char" where
  "hexdigit d = ''0123456789abcdef'' ! d"

fun colonHex :: "bytes \<Rightarrow> string" where
  "colonHex [] = []"
| "colonHex [b] = [hexdigit (unat b div 16), hexdigit (unat b mod 16)]"
| "colonHex (b # bs) = [hexdigit (unat b div 16), hexdigit (unat b mod 16)] @ '':'' @ colonHex bs"

fun dotted :: "bytes \<Rightarrow> string" where
  "dotted [] = []"
| "dotted [b] = showNat (unat b)"
| "dotted (b # bs) = showNat (unat b) @ ''.'' @ dotted bs"

definition exampleConsts :: Consts where
  "exampleConsts =
     \<lparr>CustomReasonMarkReg = 0,
      CustomReasonMarkRange = (24, 25),
      CustomReasonLogging = 1,
      CustomReasonReject = 2,
      DispositionMarkReg = 0,
      APDispositionMarkRange = (21, 22),
      DispositionAllow = 0,
      CNPNotAllowConjIDReg = 3,
      EgressReg = 5,
      IngressReg = 6,
      GetAntreaPolicyEgressTables = [45],
      EgressRuleTable = 50,
      GetAntreaPolicyIngressTables = [85],
      IngressRuleTable = 90,
      GetFlowTableName = (\<lambda>t. if t = 90 then ''IngressRule''
                             else if t = 50 then ''EgressRule'' else []),
      DispositionToString = [0 \<mapsto> ''Allow'', 1 \<mapsto> ''Drop''],
      ProtocolsToString = [1 \<mapsto> ''ICMP'', 6 \<mapsto> ''TCP'', 17 \<mapsto> ''UDP'', 132 \<mapsto> ''SCTP'']\<rparr>"

definition exampleLibs :: Libs where
  "exampleLibs =
     \<lparr>IPString = dotted,
      HWString = colonHex,
      ToNXRange = (\<lambda>r. \<lparr>ofs = fst r, nbits = snd r - fst r + 1\<rparr>),
      GetUint32ValueWithRange = (\<lambda>d r. take_bit (nbits r) (drop_bit (ofs r) d)),
      IPMarshalBinary = (\<lambda>m. case m of
          MsgIPv4 ip \<Rightarrow>
            [0x45, 0, ucast (drop_bit 8 (v4Length ip)), ucast (v4Length ip),
             0, 0, 0, 0, 64, v4Protocol ip, 0, 0]
            @ v4NWSrc ip @ v4NWDst ip
            @ (case v4Data ip of Buffer bs \<Rightarrow> bs | OtherPayload \<Rightarrow> [])
        | _ \<Rightarrow> []),
      TCPUnmarshalBinary = (\<lambda>bs.
          if length bs < 20 then Inl (Error ''too short'')
          else Inr \<lparr>PortSrc = be16 (bs ! 0) (bs ! 1),
                    PortDst = be16 (bs ! 2) (bs ! 3),
                    SeqNum = be32 (bs ! 4) (bs ! 5) (bs ! 6) (bs ! 7),
                    AckNum = be32 (bs ! 8) (bs ! 9) (bs ! 10) (bs ! 11)\<rparr>)\<rparr>"

definition exampleController :: "unit Controller" where
  "exampleController =
     \<lparr>ofClient =
        \<lparr>GetPolicyInfoFromConjunction =
           (\<lambda>i. if i = 7 then (''AntreaNetworkPolicy:default/test-anp'', ''44900'')
                 else ([], [])),
         GenBasePacketOutBuilder = (\<lambda>srcMAC dstMAC srcIPs dstIPs inPort outPort. Inr ()),
         SendTCPReject = (\<lambda>b sp dp sq ak fl. None),
         SendICMPReject = (\<lambda>b d fl. None)\<rparr>,
      GetInterfaceByIP = [''10.0.0.1'' \<mapsto> \<lparr>OFPort = 3\<rparr>, ''10.0.0.2'' \<mapsto> \<lparr>OFPort = 4\<rparr>]\<rparr>"

definition exampleWorld :: "unit World" where
  "exampleWorld = \<lparr>AntreaPolicyLogger = Some [], ofCalls = [], invoked = []\<rparr>"

text \<open>A UDP datagram 10.0.0.1:4096 to 10.0.0.2:53 with an empty body.\<close>

definition udpPacket :: Ethernet where
  "udpPacket =
     \<lparr>HWDst = [2, 0, 0, 0, 0, 2], HWSrc = [2, 0, 0, 0, 0, 1], Ethertype = 0x0800,
      EthData = MsgIPv4 \<lparr>v4Length = 28, v4Protocol = 17,
                         v4NWSrc = [10, 0, 0, 1], v4NWDst = [10, 0, 0, 2],
                         v4Data = Buffer [16, 0, 0, 53, 0, 8, 0, 0]\<rparr>\<rparr>"

text \<open>A TCP SYN 10.0.0.1:50000 to 10.0.0.2:80 with sequence number 1000.\<close>

definition tcpPacket :: Ethernet where
  "tcpPacket =
     \<lparr>HWDst = [2, 0, 0, 0, 0, 2], HWSrc = [2, 0, 0, 0, 0, 1], Ethertype = 0x0800,
      EthData = MsgIPv4 \<lparr>v4Length = 40, v4Protocol = 6,
                         v4NWSrc = [10, 0, 0, 1], v4NWDst = [10, 0, 0, 2],
                         v4Data = Buffer [0xC3, 0x50, 0, 80, 0, 0, 0x03, 0xE8, 0, 0, 0, 0,
                                          0x50, 0x02, 0xFF, 0xFF, 0, 0, 0, 0]\<rparr>\<rparr>"

text \<open>
  Packet-ins from the table IngressRule (90) with both custom reasons set and the
  disposition Allow. In the first the ingress register holds conjunction 7; in the
  second its match value is not a register, so the logging handler fails.
\<close>

definition udpPacketIn :: PacketIn where
  "udpPacketIn =
     \<lparr>TableId = 90,
      Matches = [''NXM_NX_REG0'' \<mapsto> NXRegister 0x03000000, ''NXM_NX_REG6'' \<mapsto> NXRegister 7],
      Data = udpPacket\<rparr>"

definition tcpPacketIn :: PacketIn where
  "tcpPacketIn =
     \<lparr>TableId = 90,
      Matches = [''NXM_NX_REG0'' \<mapsto> NXRegister 0x03000000, ''NXM_NX_REG6'' \<mapsto> NXRegister 7],
      Data = tcpPacket\<rparr>"

definition unloggablePacketIn :: PacketIn where
  "unloggablePacketIn =
     \<lparr>TableId = 90,
      Matches = [''NXM_NX_REG0'' \<mapsto> NXRegister 0x03000000, ''NXM_NX_REG6'' \<mapsto> OtherValue],
      Data = udpPacket\<rparr>"

text \<open>A packet-in whose sender 10.0.0.9 has no interface on this node.\<close>

definition strangerPacketIn :: PacketIn where
  "strangerPacketIn =
     \<lparr>TableId = 90,
      Matches = [''NXM_NX_REG0'' \<mapsto> NXRegister 0x03000000, ''NXM_NX_REG6'' \<mapsto> NXRegister 7],
      Data = udpPacket\<lparr>EthData := MsgIPv4 \<lparr>v4Length = 28, v4Protocol = 17,
                 v4NWSrc = [10, 0, 0, 9], v4NWDst = [10, 0, 0, 2],
                 v4Data = Buffer [16, 0, 0, 53, 0, 8, 0, 0]\<rparr>\<rparr>\<rparr>"


text \<open>A querier that knows one Pod, \<open>default/nginx\<close>, and three requests.\<close>

definition exampleQuerier :: "(string, string) AgentQuerier" where
  "exampleQuerier =
     \<lparr>GetContainerInterfacesByPod =
        (\<lambda>pod ns. if pod = ''nginx'' \<and> ns = ''default'' then [''nginx-eth0''] else []),
      GetAppliedNetworkPolicies = (\<lambda>pod ns f. [''allow-dns'']),
      GetNetworkPolicies = (\<lambda>f. [''allow-dns'', ''deny-all'']),
      Encode = (\<lambda>nps. None)\<rparr>"

definition allQuery :: Values where
  "allQuery = [''reference'' \<mapsto> [''anp'']]"

definition podQuery :: Values where
  "podQuery = [''pod'' \<mapsto> [''nginx''], ''namespace'' \<mapsto> [''default'']]"

definition unknownPodQuery :: Values where
  "unknownPodQuery = [''pod'' \<mapsto> [''ghost''], ''namespace'' \<mapsto> [''default'']]"

definition podOnlyQuery :: Values where
  "podOnlyQuery = [''pod'' \<mapsto> [''nginx'']]"

text \<open>The first connection of the integration test, in a store that holds only it.\<close>

definition testConn1 :: Connection where
  "testConn1 =
     \<lparr>StartTime = -50, StopTime = 0,
      OriginalPackets = 0xffff, OriginalBytes = 0xbaaaaa0000000000,
      ReversePackets = 0xff, ReverseBytes = 0xbaaa,
      TupleOrig = \<lparr>SourceAddress = [1, 2, 3, 4], DestinationAddress = [4, 3, 2, 1],
                    Protocol = 6, SourcePort = 65280, DestinationPort = 255\<rparr>,
      TupleReply = \<lparr>SourceAddress = [4, 3, 2, 1], DestinationAddress = [1, 2, 3, 4],
                     Protocol = 6, SourcePort = 255, DestinationPort = 65280\<rparr>,
      SourcePodName = ''pod1'', SourcePodNamespace = ''ns1'',
      DestinationPodName = [], DestinationPodNamespace = []\<rparr>"

definition testExporter :: FlowExporter where
  "testExporter =
     \<lparr>connections = [NewConnectionKey testConn1 \<mapsto> testConn1], recordsMap = Map.empty\<rparr>"

section \<open>Facts about the packet-in handlers\<close>

lemma invoked_logPacket:
  "invoked (snd (logPacket k lib c pktIn w)) = invoked w @ [HLogPacket]"
  by (simp add: logPacket_def Let_def split: sum.splits option.splits)

lemma invoked_getBasePacketOutBuilder:
  "getBasePacketOutBuilder c sm dm si di w = (r, w1) \<Longrightarrow> invoked w1 = invoked w"
  by (auto simp: getBasePacketOutBuilder_def split: option.splits)

lemma invoked_rejectRequest:
  "invoked (snd (rejectRequest lib c pktIn w)) = invoked w @ [HRejectRequest]"
  by (auto simp: rejectRequest_def Let_def
      split: sum.splits option.splits prod.splits
      dest!: invoked_getBasePacketOutBuilder)

lemma getBasePacketOutBuilder_found:
  assumes "GetInterfaceByIP c sip = Some si" and "GetInterfaceByIP c dip = Some di"
  shows "getBasePacketOutBuilder c sm dm sip dip w =
           (GenBasePacketOutBuilder (ofClient c) sm dm sip dip (OFPort si) (OFPort di),
            w\<lparr>ofCalls := ofCalls w @
                 [GenBasePacketOutBuilderCall sm dm sip dip (OFPort si) (OFPort di)]\<rparr>)"
  using assms by (simp add: getBasePacketOutBuilder_def)

lemma getBasePacketOutBuilder_not_found:
  assumes "GetInterfaceByIP c sip = None \<or> GetInterfaceByIP c dip = None"
  shows "getBasePacketOutBuilder c sm dm sip dip w =
           (Inl (Error ''couldn't find Pod config by IP''), w)"
  using assms by (auto simp: getBasePacketOutBuilder_def split: option.splits)

lemma rejectRequest_panics_early:
  assumes "rejectIPData lib (Data pktIn) = Inl e"
  shows "rejectRequest lib c pktIn w = (Some e, w\<lparr>invoked := invoked w @ [HRejectRequest]\<rparr>)"
  using assms by (simp add: rejectRequest_def Let_def)

text \<open>The reject packet goes back to the sender: its addresses are those of the
  intercepted IPv4 packet, swapped.\<close>

lemma rejectIPData_IPv4:
  assumes "Ethertype eth = IPv4_MSG" and "EthData eth = MsgIPv4 ip"
  shows "rejectIPData lib eth =
           Inr (IPString lib (v4NWDst ip), IPString lib (v4NWSrc ip), v4Protocol ip, 20)"
  using assms by (simp add: rejectIPData_def IPv4HdrLen_def)


lemma getTCPHeaderData_Buffer:
  assumes "(\<exists>ip. msg = MsgIPv4 ip \<and> v4Data ip = Buffer bs) \<or>
           (\<exists>ip. msg = MsgIPv6 ip \<and> v6Data ip = Buffer bs)"
      and "TCPUnmarshalBinary lib bs = Inr tcp"
  shows "getTCPHeaderData lib msg = Inr (PortDst tcp, PortSrc tcp, 0, SeqNum tcp + 1)"
  using assms by (auto simp: getTCPHeaderData_def)


text \<open>The slice expression on a marshalled packet that is too short: the handler panics.\<close>

lemma buildICMPData_short:
  assumes hl: "hl = 0 \<or> hl = 20 \<or> hl = 40"
      and nn: "msg \<noteq> MsgNil"
      and len: "length (IPMarshalBinary lib msg) < unat hl + 8"
  shows "buildICMPData lib msg hl = Inl (Panic SliceBounds)"
proof -
  have u: "unat (hl + 8) = unat hl + 8"
    using hl by auto
  show ?thesis
    using nn len by (simp add: buildICMPData_def Let_def u)
qed

text \<open>Whatever the marshalled packet is, an ICMP payload that gets built has the length
  of the unused header, the IP header and eight more bytes.\<close>

lemma buildICMPData_length:
  assumes hl: "hl = 0 \<or> hl = 20 \<or> hl = 40"
      and r: "buildICMPData lib msg hl = Inr d"
  shows "length d = 4 + unat hl + 8"
proof -
  have u: "unat (12 + hl) = 12 + unat hl" "unat (hl + 8) = unat hl + 8"
    using hl by auto
  show ?thesis
    using r
    by (auto simp: buildICMPData_def Let_def u ICMPUnusedHdrLen_def PutUint32_zero_def copy_def
        split: if_splits)
qed

lemma tableIn_set: "tableIn t ts = (t \<in> set ts)"
  by (induction ts) auto

lemma getMatch_not_allow:
  "disp \<noteq> DispositionAllow k \<Longrightarrow>
     getMatch k matchers tableID disp = getMatchRegField matchers (CNPNotAllowConjIDReg k)"
  by (simp add: getMatch_def)

lemma getMatch_egress:
  "tableID \<in> set (GetAntreaPolicyEgressTables k) \<union> {EgressRuleTable k} \<Longrightarrow>
     getMatch k matchers tableID (DispositionAllow k) = getMatchRegField matchers (EgressReg k)"
  by (simp add: getMatch_def tableIn_set)

lemma getMatch_ingress:
  "tableID \<notin> set (GetAntreaPolicyEgressTables k) \<union> {EgressRuleTable k} \<Longrightarrow>
   tableID \<in> set (GetAntreaPolicyIngressTables k) \<union> {IngressRuleTable k} \<Longrightarrow>
     getMatch k matchers tableID (DispositionAllow k) = getMatchRegField matchers (IngressReg k)"
  by (simp add: getMatch_def tableIn_set)

text \<open>A table that is neither an egress nor an ingress table leaves the nil match field,
  and reading the conjunction ID from it is a nil dereference.\<close>

lemma getMatch_other_table:
  "tableID \<notin> set (GetAntreaPolicyEgressTables k) \<union> {EgressRuleTable k} \<Longrightarrow>
   tableID \<notin> set (GetAntreaPolicyIngressTables k) \<union> {IngressRuleTable k} \<Longrightarrow>
     getMatch k matchers tableID (DispositionAllow k) = None"
  by (simp add: getMatch_def tableIn_set)

lemma getNetworkPolicyInfo_Inr:
  assumes "getNetworkPolicyInfo k lib c pktIn ob = Inr ob'"
  shows "\<exists>info conjID.
           getInfoInReg lib (getMatchRegField (Matches pktIn) (DispositionMarkReg k))
             (Some (ToNXRange lib (APDispositionMarkRange k))) = Inr info \<and>
           getInfoInReg lib (getMatch k (Matches pktIn) (TableId pktIn) info) None = Inr conjID \<and>
           ob' = ob\<lparr>tableName := GetFlowTableName k (TableId pktIn),
                    disposition := mapGet (DispositionToString k) info,
                    npRef := fst (GetPolicyInfoFromConjunction (ofClient c) conjID),
                    ofPriority := snd (GetPolicyInfoFromConjunction (ofClient c) conjID)\<rparr>"
proof (cases "getInfoInReg lib (getMatchRegField (Matches pktIn) (DispositionMarkReg k))
             (Some (ToNXRange lib (APDispositionMarkRange k)))")
  case (Inl e)
  with assms show ?thesis by (simp add: getNetworkPolicyInfo_def Let_def)
next
  case (Inr info)
  note i = Inr
  show ?thesis
  proof (cases "getInfoInReg lib (getMatch k (Matches pktIn) (TableId pktIn) info) None")
    case (Inl e)
    with assms i show ?thesis by (simp add: getNetworkPolicyInfo_def Let_def)
  next
    case (Inr conjID)
    with assms i show ?thesis by (simp add: getNetworkPolicyInfo_def Let_def)
  qed
qed

section \<open>Packet-in dispatch\<close>


text \<open>
  C1, as the code has it. When both the logging bit and the reject bit are set in the
  custom reasons, the logging handler is always invoked, and it runs first, so no
  result of the reject handler can suppress it. The reject handler is invoked exactly
  when the logging handler returns no error: then the result of \<open>HandlePacketIn\<close> is
  that of the reject handler; otherwise \<open>HandlePacketIn\<close> returns the logging
  handler's error at once.
\<close>

theorem HandlePacketIn_both_reasons:
  assumes reg: "getInfoInReg lib (getMatchRegField (Matches pktIn) (CustomReasonMarkReg k))
                  (Some (ToNXRange lib (CustomReasonMarkRange k))) = Inr customReasons"
      and lg: "customReasons AND CustomReasonLogging k = CustomReasonLogging k"
      and rj: "customReasons AND CustomReasonReject k = CustomReasonReject k"
  shows "invoked (snd (HandlePacketIn k lib c (Some pktIn) w)) =
           invoked w @ [HLogPacket] @
             (if fst (logPacket k lib c pktIn w) = None then [HRejectRequest] else []) \<and>
         (fst (logPacket k lib c pktIn w) = None \<longrightarrow>
            HandlePacketIn k lib c (Some pktIn) w =
              rejectRequest lib c pktIn (snd (logPacket k lib c pktIn w))) \<and>
         (fst (logPacket k lib c pktIn w) \<noteq> None \<longrightarrow>
            HandlePacketIn k lib c (Some pktIn) w = logPacket k lib c pktIn w)"
proof (cases "logPacket k lib c pktIn w")
  case (Pair r w1)
  have inv1: "invoked w1 = invoked w @ [HLogPacket]"
    using invoked_logPacket [of k lib c pktIn w] Pair by simp
  show ?thesis
  proof (cases r)
    case None
    then show ?thesis
      using Pair reg lg rj inv1 invoked_rejectRequest [of lib c pktIn w1]
      by (simp add: HandlePacketIn_def Let_def)
  next
    case (Some e)
    then show ?thesis
      using Pair reg lg rj inv1 by (simp add: HandlePacketIn_def Let_def)
  qed
qed

text \<open>
  The theorem at two packet-ins with both reasons set (register 0 holds 0x03000000):
  one that is logged and then rejected, and one whose logging fails.
\<close>

theorem HandlePacketIn_both_reasons_witness:
  "getInfoInReg exampleLibs
     (getMatchRegField (Matches udpPacketIn) (CustomReasonMarkReg exampleConsts))
     (Some (ToNXRange exampleLibs (CustomReasonMarkRange exampleConsts))) = Inr 3 \<and>
   getInfoInReg exampleLibs
     (getMatchRegField (Matches unloggablePacketIn) (CustomReasonMarkReg exampleConsts))
     (Some (ToNXRange exampleLibs (CustomReasonMarkRange exampleConsts))) = Inr 3 \<and>
   (3 :: u32) AND CustomReasonLogging exampleConsts = CustomReasonLogging exampleConsts \<and>
   (3 :: u32) AND CustomReasonReject exampleConsts = CustomReasonReject exampleConsts \<and>
   invoked (snd (HandlePacketIn exampleConsts exampleLibs exampleController
                   (Some udpPacketIn) exampleWorld)) = [HLogPacket, HRejectRequest] \<and>
   invoked (snd (HandlePacketIn exampleConsts exampleLibs exampleController
                   (Some unloggablePacketIn) exampleWorld)) = [HLogPacket]"
proof -
  have reg1: "getInfoInReg exampleLibs
     (getMatchRegField (Matches udpPacketIn) (CustomReasonMarkReg exampleConsts))
     (Some (ToNXRange exampleLibs (CustomReasonMarkRange exampleConsts))) = Inr 3"
    by code_simp
  have reg2: "getInfoInReg exampleLibs
     (getMatchRegField (Matches unloggablePacketIn) (CustomReasonMarkReg exampleConsts))
     (Some (ToNXRange exampleLibs (CustomReasonMarkRange exampleConsts))) = Inr 3"
    by code_simp
  have lg: "(3 :: u32) AND CustomReasonLogging exampleConsts = CustomReasonLogging exampleConsts"
    by code_simp
  have rj: "(3 :: u32) AND CustomReasonReject exampleConsts = CustomReasonReject exampleConsts"
    by code_simp
  have ok: "fst (logPacket exampleConsts exampleLibs exampleController udpPacketIn exampleWorld)
              = None"
    by code_simp
  have ko: "fst (logPacket exampleConsts exampleLibs exampleController unloggablePacketIn
              exampleWorld) \<noteq> None"
    by code_simp
  have w0: "invoked exampleWorld = []"
    by (simp add: exampleWorld_def)
  have i1: "invoked (snd (HandlePacketIn exampleConsts exampleLibs exampleController
                   (Some udpPacketIn) exampleWorld)) = [HLogPacket, HRejectRequest]"
    using HandlePacketIn_both_reasons [OF reg1 lg rj, THEN conjunct1, of exampleController exampleWorld]
      ok w0
    by simp
  have i2: "invoked (snd (HandlePacketIn exampleConsts exampleLibs exampleController
                   (Some unloggablePacketIn) exampleWorld)) = [HLogPacket]"
    using HandlePacketIn_both_reasons [OF reg2 lg rj, THEN conjunct1, of exampleController exampleWorld]
      ko w0
    by simp
  show ?thesis
    by (intro conjI reg1 reg2 lg rj i1 i2)
qed

text \<open>
  C1 as stated fails. The packet-in \<open>unloggablePacketIn\<close> has both bits set. Its logging
  handler returns an error, and \<open>HandlePacketIn\<close> returns that error with the reject
  handler never invoked and no call made on the OpenFlow client, although the reject
  handler, run on the same packet-in, succeeds.
\<close>

theorem HandlePacketIn_logging_error_counterexample:
  "getInfoInReg exampleLibs
     (getMatchRegField (Matches unloggablePacketIn) (CustomReasonMarkReg exampleConsts))
     (Some (ToNXRange exampleLibs (CustomReasonMarkRange exampleConsts))) = Inr 3 \<and>
   (3 :: u32) AND CustomReasonLogging exampleConsts = CustomReasonLogging exampleConsts \<and>
   (3 :: u32) AND CustomReasonReject exampleConsts = CustomReasonReject exampleConsts \<and>
   fst (HandlePacketIn exampleConsts exampleLibs exampleController
          (Some unloggablePacketIn) exampleWorld) =
     Some (Error (''received error while retrieving NetworkPolicy info: '' @
                  ''received error while unloading conjunction id from reg: '' @
                  ''register value cannot be retrieved'')) \<and>
   invoked (snd (HandlePacketIn exampleConsts exampleLibs exampleController
                   (Some unloggablePacketIn) exampleWorld)) = [HLogPacket] \<and>
   ofCalls (snd (HandlePacketIn exampleConsts exampleLibs exampleController
                   (Some unloggablePacketIn) exampleWorld)) = [] \<and>
   fst (rejectRequest exampleLibs exampleController unloggablePacketIn exampleWorld) = None"
  by code_simp

section \<open>Reject synthesis\<close>

text \<open>
  C2. Take an intercepted IP packet of protocol TCP whose payload buffer holds a TCP
  header with source port \<open>PortSrc tcp\<close>, destination port \<open>PortDst tcp\<close> and sequence
  number \<open>SeqNum tcp\<close>. Once the base packet-out builder is there (both endpoints
  resolve in the interface store and the client hands out a builder), the reject
  handler sends one TCP reject whose source port is the segment's destination port,
  whose destination port is the segment's source port and whose acknowledgment number
  is the segment's sequence number plus one (in 32 bits); the sequence number of the
  reject is 0. What the handler returns is what \<open>SendTCPReject\<close> returns.
\<close>

theorem rejectRequest_TCP:
  assumes ipd: "rejectIPData lib (Data pktIn) = Inr (sip, dip, Type_TCP, hl)"
      and buf: "(\<exists>ip. EthData (Data pktIn) = MsgIPv4 ip \<and> v4Data ip = Buffer bs) \<or>
                (\<exists>ip. EthData (Data pktIn) = MsgIPv6 ip \<and> v6Data ip = Buffer bs)"
      and tcp: "TCPUnmarshalBinary lib bs = Inr tcp"
      and src: "GetInterfaceByIP c sip = Some si"
      and dst: "GetInterfaceByIP c dip = Some di"
      and gen: "GenBasePacketOutBuilder (ofClient c) (HWString lib (HWDst (Data pktIn)))
                  (HWString lib (HWSrc (Data pktIn))) sip dip (OFPort si) (OFPort di) = Inr b"
  shows "ofCalls (snd (rejectRequest lib c pktIn w)) =
           ofCalls w @
             [GenBasePacketOutBuilderCall (HWString lib (HWDst (Data pktIn)))
                (HWString lib (HWSrc (Data pktIn))) sip dip (OFPort si) (OFPort di),
              SendTCPRejectCall b (PortDst tcp) (PortSrc tcp) 0 (SeqNum tcp + 1) False] \<and>
         fst (rejectRequest lib c pktIn w) =
           SendTCPReject (ofClient c) b (PortDst tcp) (PortSrc tcp) 0 (SeqNum tcp + 1) False"
  using ipd gen
  by (simp add: rejectRequest_def Let_def getBasePacketOutBuilder_found [OF src dst]
      getTCPHeaderData_Buffer [OF buf tcp])

text \<open>
  The theorem at the TCP SYN from 10.0.0.1:50000 to 10.0.0.2:80 with sequence number
  1000: the reject goes from port 80 to port 50000 and acknowledges 1001.
\<close>

theorem rejectRequest_TCP_witness:
  "rejectIPData exampleLibs (Data tcpPacketIn) = Inr (''10.0.0.2'', ''10.0.0.1'', Type_TCP, 20) \<and>
   TCPUnmarshalBinary exampleLibs
     [0xC3, 0x50, 0, 80, 0, 0, 0x03, 0xE8, 0, 0, 0, 0, 0x50, 0x02, 0xFF, 0xFF, 0, 0, 0, 0] =
     Inr \<lparr>PortSrc = 50000, PortDst = 80, SeqNum = 1000, AckNum = 0\<rparr> \<and>
   GetInterfaceByIP exampleController ''10.0.0.2'' = Some \<lparr>OFPort = 4\<rparr> \<and>
   GetInterfaceByIP exampleController ''10.0.0.1'' = Some \<lparr>OFPort = 3\<rparr> \<and>
   ofCalls (snd (rejectRequest exampleLibs exampleController tcpPacketIn exampleWorld)) =
     [GenBasePacketOutBuilderCall ''02:00:00:00:00:02'' ''02:00:00:00:00:01''
        ''10.0.0.2'' ''10.0.0.1'' 4 3,
      SendTCPRejectCall () 80 50000 0 1001 False]"
proof -
  let ?bs = "[0xC3, 0x50, 0, 80, 0, 0, 0x03, 0xE8, 0, 0, 0, 0, 0x50, 0x02, 0xFF, 0xFF,
              0, 0, 0, 0] :: bytes"
  let ?tcp = "\<lparr>PortSrc = 50000, PortDst = 80, SeqNum = 1000, AckNum = 0\<rparr>"
  have ipd: "rejectIPData exampleLibs (Data tcpPacketIn) =
               Inr (''10.0.0.2'', ''10.0.0.1'', Type_TCP, 20)"
    by code_simp
  have buf: "(\<exists>ip. EthData (Data tcpPacketIn) = MsgIPv4 ip \<and> v4Data ip = Buffer ?bs) \<or>
             (\<exists>ip. EthData (Data tcpPacketIn) = MsgIPv6 ip \<and> v6Data ip = Buffer ?bs)"
    by (simp add: tcpPacketIn_def tcpPacket_def)
  have tcp: "TCPUnmarshalBinary exampleLibs ?bs = Inr ?tcp"
    by code_simp
  have src: "GetInterfaceByIP exampleController ''10.0.0.2'' = Some \<lparr>OFPort = 4\<rparr>"
    by code_simp
  have dst: "GetInterfaceByIP exampleController ''10.0.0.1'' = Some \<lparr>OFPort = 3\<rparr>"
    by code_simp
  have gen: "GenBasePacketOutBuilder (ofClient exampleController)
               (HWString exampleLibs (HWDst (Data tcpPacketIn)))
               (HWString exampleLibs (HWSrc (Data tcpPacketIn)))
               ''10.0.0.2'' ''10.0.0.1'' (OFPort \<lparr>OFPort = 4\<rparr>) (OFPort \<lparr>OFPort = 3\<rparr>) = Inr ()"
    by code_simp
  have macs: "HWString exampleLibs (HWDst (Data tcpPacketIn)) = ''02:00:00:00:00:02''"
             "HWString exampleLibs (HWSrc (Data tcpPacketIn)) = ''02:00:00:00:00:01''"
    by code_simp+
  have w0: "ofCalls exampleWorld = []"
    by (simp add: exampleWorld_def)
  have "ofCalls (snd (rejectRequest exampleLibs exampleController tcpPacketIn exampleWorld)) =
     [GenBasePacketOutBuilderCall ''02:00:00:00:00:02'' ''02:00:00:00:00:01''
        ''10.0.0.2'' ''10.0.0.1'' 4 3,
      SendTCPRejectCall () 80 50000 0 1001 False]"
    using rejectRequest_TCP [OF ipd buf tcp src dst gen, THEN conjunct1, of exampleWorld]
    by (simp add: macs w0)
  then show ?thesis
    using ipd tcp src dst by (intro conjI)
qed




text \<open>
  C5. Reject synthesis needs both endpoints in the interface store. When the lookup by
  IP fails for the source or for the destination of the reject packet (the two
  endpoints of the intercepted packet), the handler returns the error "couldn't find
  Pod config by IP" and makes no call on the OpenFlow client: no packet-out builder is
  built and nothing is sent. Conversely, whenever the handler does make a call on the
  client, both lookups had succeeded.
\<close>

theorem rejectRequest_lookup_fails:
  "(rejectIPData lib (Data pktIn) = Inr (sip, dip, prot, hl) \<and>
    (GetInterfaceByIP c sip = None \<or> GetInterfaceByIP c dip = None) \<longrightarrow>
      rejectRequest lib c pktIn w =
        (Some (Error ''couldn't find Pod config by IP''),
         w\<lparr>invoked := invoked w @ [HRejectRequest]\<rparr>)) \<and>
   (ofCalls (snd (rejectRequest lib c pktIn w)) \<noteq> ofCalls w \<longrightarrow>
      (\<exists>sip dip prot hl si di.
         rejectIPData lib (Data pktIn) = Inr (sip, dip, prot, hl) \<and>
         GetInterfaceByIP c sip = Some si \<and> GetInterfaceByIP c dip = Some di))"
proof (intro conjI impI)
  assume "rejectIPData lib (Data pktIn) = Inr (sip, dip, prot, hl) \<and>
          (GetInterfaceByIP c sip = None \<or> GetInterfaceByIP c dip = None)"
  then show "rejectRequest lib c pktIn w =
              (Some (Error ''couldn't find Pod config by IP''),
               w\<lparr>invoked := invoked w @ [HRejectRequest]\<rparr>)"
    by (simp add: rejectRequest_def Let_def getBasePacketOutBuilder_not_found)
next
  assume ch: "ofCalls (snd (rejectRequest lib c pktIn w)) \<noteq> ofCalls w"
  show "\<exists>sip dip prot hl si di.
               rejectIPData lib (Data pktIn) = Inr (sip, dip, prot, hl) \<and>
               GetInterfaceByIP c sip = Some si \<and> GetInterfaceByIP c dip = Some di"
  proof (cases "rejectIPData lib (Data pktIn)")
    case (Inl e)
    with ch show ?thesis by (simp add: rejectRequest_panics_early)
  next
    case (Inr t)
    obtain sip dip prot hl where t: "t = (sip, dip, prot, hl)" by (cases t) auto
    show ?thesis
    proof (cases "GetInterfaceByIP c sip = None \<or> GetInterfaceByIP c dip = None")
      case True
      with ch Inr t show ?thesis
        by (simp add: rejectRequest_def Let_def getBasePacketOutBuilder_not_found)
    next
      case False
      with Inr t show ?thesis by auto
    qed
  qed
qed

text \<open>
  The theorem at a packet-in from 10.0.0.9, which the interface store does not know
  (the handler fails and the world only records that it ran), and at the UDP datagram
  between two known Pods (calls are made, and both lookups succeed).
\<close>

theorem rejectRequest_lookup_fails_witness:
  "rejectIPData exampleLibs (Data strangerPacketIn) = Inr (''10.0.0.2'', ''10.0.0.9'', 17, 20) \<and>
   GetInterfaceByIP exampleController ''10.0.0.9'' = None \<and>
   rejectRequest exampleLibs exampleController strangerPacketIn exampleWorld =
     (Some (Error ''couldn't find Pod config by IP''),
      exampleWorld\<lparr>invoked := invoked exampleWorld @ [HRejectRequest]\<rparr>) \<and>
   ofCalls (snd (rejectRequest exampleLibs exampleController udpPacketIn exampleWorld)) \<noteq>
     ofCalls exampleWorld \<and>
   (\<exists>sip dip prot hl si di.
      rejectIPData exampleLibs (Data udpPacketIn) = Inr (sip, dip, prot, hl) \<and>
      GetInterfaceByIP exampleController sip = Some si \<and>
      GetInterfaceByIP exampleController dip = Some di)"
proof -
  have ipd: "rejectIPData exampleLibs (Data strangerPacketIn) =
               Inr (''10.0.0.2'', ''10.0.0.9'', 17, 20)"
    by code_simp
  have miss: "GetInterfaceByIP exampleController ''10.0.0.9'' = None"
    by code_simp
  have ch: "ofCalls (snd (rejectRequest exampleLibs exampleController udpPacketIn exampleWorld)) \<noteq>
              ofCalls exampleWorld"
    by code_simp
  have r1: "rejectRequest exampleLibs exampleController strangerPacketIn exampleWorld =
     (Some (Error ''couldn't find Pod config by IP''),
      exampleWorld\<lparr>invoked := invoked exampleWorld @ [HRejectRequest]\<rparr>)"
    using rejectRequest_lookup_fails
            [of exampleLibs strangerPacketIn "''10.0.0.2''" "''10.0.0.9''" 17 20
                exampleController exampleWorld, THEN conjunct1]
          ipd miss
    by simp
  have r2: "\<exists>sip dip prot hl si di.
      rejectIPData exampleLibs (Data udpPacketIn) = Inr (sip, dip, prot, hl) \<and>
      GetInterfaceByIP exampleController sip = Some si \<and>
      GetInterfaceByIP exampleController dip = Some di"
    using rejectRequest_lookup_fails
            [of exampleLibs udpPacketIn _ _ _ _ exampleController exampleWorld,
             THEN conjunct2, THEN mp, OF ch] .
  show ?thesis
    using ipd miss r1 ch r2 by (intro conjI)
qed

section \<open>Audit logging\<close>

text \<open>
  C6. The register from which the audit handler reads the conjunction ID is selected
  by the decoded disposition and the table of the packet-in: the not-allow register
  when the disposition is not Allow; with the disposition Allow, the egress register
  when the table is one of the egress tables, and the ingress register when it is one
  of the ingress tables (and not also listed as an egress table, which are searched
  first). \<open>getNetworkPolicyInfo\<close> decodes the disposition from its register, reads the
  conjunction ID from the register so selected, and resolves it to the policy
  reference and priority.
\<close>

theorem getMatch_register:
  "(disp \<noteq> DispositionAllow k \<longrightarrow>
      getMatch k matchers tableID disp = getMatchRegField matchers (CNPNotAllowConjIDReg k)) \<and>
   (disp = DispositionAllow k \<and>
    tableID \<in> set (GetAntreaPolicyEgressTables k) \<union> {EgressRuleTable k} \<longrightarrow>
      getMatch k matchers tableID disp = getMatchRegField matchers (EgressReg k)) \<and>
   (disp = DispositionAllow k \<and>
    tableID \<notin> set (GetAntreaPolicyEgressTables k) \<union> {EgressRuleTable k} \<and>
    tableID \<in> set (GetAntreaPolicyIngressTables k) \<union> {IngressRuleTable k} \<longrightarrow>
      getMatch k matchers tableID disp = getMatchRegField matchers (IngressReg k)) \<and>
   (getNetworkPolicyInfo k lib c pktIn ob = Inr ob' \<longrightarrow>
      (\<exists>info conjID.
         getInfoInReg lib (getMatchRegField (Matches pktIn) (DispositionMarkReg k))
           (Some (ToNXRange lib (APDispositionMarkRange k))) = Inr info \<and>
         getInfoInReg lib (getMatch k (Matches pktIn) (TableId pktIn) info) None = Inr conjID \<and>
         (npRef ob', ofPriority ob') = GetPolicyInfoFromConjunction (ofClient c) conjID))"
proof (intro conjI impI)
  assume "getNetworkPolicyInfo k lib c pktIn ob = Inr ob'"
  from getNetworkPolicyInfo_Inr [OF this]
  show "\<exists>info conjID.
               getInfoInReg lib (getMatchRegField (Matches pktIn) (DispositionMarkReg k))
                 (Some (ToNXRange lib (APDispositionMarkRange k))) = Inr info \<and>
               getInfoInReg lib (getMatch k (Matches pktIn) (TableId pktIn) info) None = Inr conjID \<and>
               (npRef ob', ofPriority ob') = GetPolicyInfoFromConjunction (ofClient c) conjID"
    by force
qed (simp_all add: getMatch_not_allow getMatch_egress getMatch_ingress)

text \<open>
  The theorem with the example constants: disposition Drop (1) reads register 3; Allow
  (0) reads register 5 in table 50 and register 6 in table 90; and the packet-in from
  table 90 with conjunction 7 in register 6 resolves to its policy.
\<close>

theorem getMatch_register_witness:
  "(1 :: u32) \<noteq> DispositionAllow exampleConsts \<and>
   getMatch exampleConsts (Matches udpPacketIn) 90 1 =
     getMatchRegField (Matches udpPacketIn) (CNPNotAllowConjIDReg exampleConsts) \<and>
   (50 :: u8) \<in> set (GetAntreaPolicyEgressTables exampleConsts) \<union> {EgressRuleTable exampleConsts} \<and>
   getMatch exampleConsts (Matches udpPacketIn) 50 (DispositionAllow exampleConsts) =
     getMatchRegField (Matches udpPacketIn) (EgressReg exampleConsts) \<and>
   (90 :: u8) \<notin> set (GetAntreaPolicyEgressTables exampleConsts) \<union> {EgressRuleTable exampleConsts} \<and>
   (90 :: u8) \<in> set (GetAntreaPolicyIngressTables exampleConsts) \<union> {IngressRuleTable exampleConsts} \<and>
   getMatch exampleConsts (Matches udpPacketIn) 90 (DispositionAllow exampleConsts) =
     getMatchRegField (Matches udpPacketIn) (IngressReg exampleConsts) \<and>
   getNetworkPolicyInfo exampleConsts exampleLibs exampleController udpPacketIn new_logInfo =
     Inr \<lparr>tableName = ''IngressRule'', npRef = ''AntreaNetworkPolicy:default/test-anp'',
          disposition = ''Allow'', ofPriority = ''44900'', srcIP = [], destIP = [],
          pktLength = 0, protocolStr = []\<rparr> \<and>
   (\<exists>info conjID.
      getInfoInReg exampleLibs
        (getMatchRegField (Matches udpPacketIn) (DispositionMarkReg exampleConsts))
        (Some (ToNXRange exampleLibs (APDispositionMarkRange exampleConsts))) = Inr info \<and>
      getInfoInReg exampleLibs
        (getMatch exampleConsts (Matches udpPacketIn) (TableId udpPacketIn) info) None =
        Inr conjID \<and>
      (''AntreaNetworkPolicy:default/test-anp'', ''44900'') =
        GetPolicyInfoFromConjunction (ofClient exampleController) conjID)"
proof -
  let ?ob = "\<lparr>tableName = ''IngressRule'', npRef = ''AntreaNetworkPolicy:default/test-anp'',
          disposition = ''Allow'', ofPriority = ''44900'', srcIP = [], destIP = [],
          pktLength = 0, protocolStr = []\<rparr>"
  note t = getMatch_register [where k = exampleConsts and matchers = "Matches udpPacketIn"]
  have d: "(1 :: u32) \<noteq> DispositionAllow exampleConsts"
    by code_simp
  have e: "(50 :: u8) \<in> set (GetAntreaPolicyEgressTables exampleConsts) \<union>
             {EgressRuleTable exampleConsts}"
    by (simp add: exampleConsts_def)
  have ne: "(90 :: u8) \<notin> set (GetAntreaPolicyEgressTables exampleConsts) \<union>
              {EgressRuleTable exampleConsts}"
    by (simp add: exampleConsts_def)
  have i: "(90 :: u8) \<in> set (GetAntreaPolicyIngressTables exampleConsts) \<union>
             {IngressRuleTable exampleConsts}"
    by (simp add: exampleConsts_def)
  have g: "getNetworkPolicyInfo exampleConsts exampleLibs exampleController udpPacketIn
             new_logInfo = Inr ?ob"
    by code_simp
  have r1: "getMatch exampleConsts (Matches udpPacketIn) 90 1 =
     getMatchRegField (Matches udpPacketIn) (CNPNotAllowConjIDReg exampleConsts)"
    using t [where disp = 1 and tableID = 90, THEN conjunct1, THEN mp, OF d] .
  have r2: "getMatch exampleConsts (Matches udpPacketIn) 50 (DispositionAllow exampleConsts) =
     getMatchRegField (Matches udpPacketIn) (EgressReg exampleConsts)"
    using t [where disp = "DispositionAllow exampleConsts" and tableID = 50,
             THEN conjunct2, THEN conjunct1, THEN mp, OF conjI [OF refl e]] .
  have r3: "getMatch exampleConsts (Matches udpPacketIn) 90 (DispositionAllow exampleConsts) =
     getMatchRegField (Matches udpPacketIn) (IngressReg exampleConsts)"
    using t [where disp = "DispositionAllow exampleConsts" and tableID = 90,
             THEN conjunct2, THEN conjunct2, THEN conjunct1, THEN mp,
             OF conjI [OF refl conjI [OF ne i]]] .
  have r4: "\<exists>info conjID.
      getInfoInReg exampleLibs
        (getMatchRegField (Matches udpPacketIn) (DispositionMarkReg exampleConsts))
        (Some (ToNXRange exampleLibs (APDispositionMarkRange exampleConsts))) = Inr info \<and>
      getInfoInReg exampleLibs
        (getMatch exampleConsts (Matches udpPacketIn) (TableId udpPacketIn) info) None =
        Inr conjID \<and>
      (''AntreaNetworkPolicy:default/test-anp'', ''44900'') =
        GetPolicyInfoFromConjunction (ofClient exampleController) conjID"
    using getMatch_register
            [where k = exampleConsts and lib = exampleLibs and c = exampleController
               and pktIn = udpPacketIn and ob = new_logInfo and ob' = ?ob,
             THEN conjunct2, THEN conjunct2, THEN conjunct2, THEN mp, OF g]
    by simp
  show ?thesis
    using d r1 e r2 ne i r3 g r4 by (intro conjI)
qed



section \<open>The policy query handler\<close>

text \<open>
  C8. With \<open>f\<close> the filter read from the URL query: when the Pod field of \<open>f\<close> is empty
  the handler answers with all policies matching \<open>f\<close> (one query,
  \<open>GetNetworkPolicies f\<close>); when Pod and namespace are both given and the Pod has
  interfaces, with the policies applied to that Pod (\<open>GetAppliedNetworkPolicies\<close>); and
  when the Pod has no known interface, with the empty list, without asking for
  policies at all. The answer is the encoded list.
\<close>

theorem HandleFunc_results:
  fixes aq :: "('np, 'i) AgentQuerier" and query :: Values
  defines "f \<equiv> NewFilterFromURLQuery query"
  shows "(Pod f = [] \<longrightarrow>
            HandleFunc aq query =
              (encodeResponse aq (GetNetworkPolicies aq f), [NetworkPoliciesQuery f])) \<and>
         (Pod f \<noteq> [] \<and> Namespace f \<noteq> [] \<and>
            GetContainerInterfacesByPod aq (Pod f) (Namespace f) \<noteq> [] \<longrightarrow>
            HandleFunc aq query =
              (encodeResponse aq (GetAppliedNetworkPolicies aq (Pod f) (Namespace f) f),
               [InterfacesByPodQuery (Pod f) (Namespace f),
                AppliedNetworkPoliciesQuery (Pod f) (Namespace f) f])) \<and>
         (Pod f \<noteq> [] \<and> Namespace f \<noteq> [] \<and>
            GetContainerInterfacesByPod aq (Pod f) (Namespace f) = [] \<longrightarrow>
            HandleFunc aq query =
              (encodeResponse aq [], [InterfacesByPodQuery (Pod f) (Namespace f)]))"
  unfolding f_def by (simp add: HandleFunc_def Let_def)

text \<open>
  The theorem at three requests: \<open>?reference=anp\<close>, \<open>?pod=nginx&namespace=default\<close> for
  a Pod with one interface, and \<open>?pod=ghost&namespace=default\<close> for an unknown Pod.
\<close>

theorem HandleFunc_results_witness:
  "Pod (NewFilterFromURLQuery allQuery) = [] \<and>
   HandleFunc exampleQuerier allQuery =
     (NetworkPolicyList [''allow-dns'', ''deny-all''],
      [NetworkPoliciesQuery
         \<lparr>Name = [], Namespace = [], Pod = [], SourceType = AntreaNetworkPolicy\<rparr>]) \<and>
   NewFilterFromURLQuery podQuery =
     \<lparr>Name = [], Namespace = ''default'', Pod = ''nginx'', SourceType = NoType\<rparr> \<and>
   GetContainerInterfacesByPod exampleQuerier ''nginx'' ''default'' \<noteq> [] \<and>
   HandleFunc exampleQuerier podQuery =
     (NetworkPolicyList [''allow-dns''],
      [InterfacesByPodQuery ''nginx'' ''default'',
       AppliedNetworkPoliciesQuery ''nginx'' ''default''
         \<lparr>Name = [], Namespace = ''default'', Pod = ''nginx'', SourceType = NoType\<rparr>]) \<and>
   NewFilterFromURLQuery unknownPodQuery =
     \<lparr>Name = [], Namespace = ''default'', Pod = ''ghost'', SourceType = NoType\<rparr> \<and>
   GetContainerInterfacesByPod exampleQuerier ''ghost'' ''default'' = [] \<and>
   HandleFunc exampleQuerier unknownPodQuery =
     (NetworkPolicyList [], [InterfacesByPodQuery ''ghost'' ''default''])"
proof -
  have f1: "NewFilterFromURLQuery allQuery =
              \<lparr>Name = [], Namespace = [], Pod = [], SourceType = AntreaNetworkPolicy\<rparr>"
    by code_simp
  have f2: "NewFilterFromURLQuery podQuery =
              \<lparr>Name = [], Namespace = ''default'', Pod = ''nginx'', SourceType = NoType\<rparr>"
    by code_simp
  have f3: "NewFilterFromURLQuery unknownPodQuery =
              \<lparr>Name = [], Namespace = ''default'', Pod = ''ghost'', SourceType = NoType\<rparr>"
    by code_simp
  have p1: "Pod (NewFilterFromURLQuery allQuery) = []"
    by (simp add: f1)
  have i2: "GetContainerInterfacesByPod exampleQuerier ''nginx'' ''default'' \<noteq> []"
    by code_simp
  have i3: "GetContainerInterfacesByPod exampleQuerier ''ghost'' ''default'' = []"
    by code_simp
  have e1: "encodeResponse exampleQuerier
              (GetNetworkPolicies exampleQuerier
                 \<lparr>Name = [], Namespace = [], Pod = [], SourceType = AntreaNetworkPolicy\<rparr>) =
            NetworkPolicyList [''allow-dns'', ''deny-all'']"
    by code_simp
  have e2: "encodeResponse exampleQuerier
              (GetAppliedNetworkPolicies exampleQuerier ''nginx'' ''default''
                 \<lparr>Name = [], Namespace = ''default'', Pod = ''nginx'', SourceType = NoType\<rparr>) =
            NetworkPolicyList [''allow-dns'']"
    by code_simp
  have e3: "encodeResponse exampleQuerier [] = (NetworkPolicyList [] :: string Response)"
    by code_simp
  have r1: "HandleFunc exampleQuerier allQuery =
     (NetworkPolicyList [''allow-dns'', ''deny-all''],
      [NetworkPoliciesQuery
         \<lparr>Name = [], Namespace = [], Pod = [], SourceType = AntreaNetworkPolicy\<rparr>])"
    using HandleFunc_results [of allQuery exampleQuerier, THEN conjunct1] p1
    by (simp add: f1 e1)
  have r2: "HandleFunc exampleQuerier podQuery =
     (NetworkPolicyList [''allow-dns''],
      [InterfacesByPodQuery ''nginx'' ''default'',
       AppliedNetworkPoliciesQuery ''nginx'' ''default''
         \<lparr>Name = [], Namespace = ''default'', Pod = ''nginx'', SourceType = NoType\<rparr>])"
    using HandleFunc_results [of podQuery exampleQuerier, THEN conjunct2, THEN conjunct1] i2
    by (simp add: f2 e2)
  have r3: "HandleFunc exampleQuerier unknownPodQuery =
     (NetworkPolicyList [], [InterfacesByPodQuery ''ghost'' ''default''])"
    using HandleFunc_results [of unknownPodQuery exampleQuerier, THEN conjunct2, THEN conjunct2] i3
    by (simp add: f3 e3)
  show ?thesis
    using p1 r1 f2 i2 r2 f3 i3 r3 by (intro conjI)
qed

text \<open>
  C10. When the Pod field of the filter is not empty and its namespace field is, the
  handler answers with the HTTP error 400 (Bad Request) "With a pod name, namespace
  must be provided" and makes no query: neither for interfaces nor for policies, and no
  policy list is encoded.
\<close>

theorem HandleFunc_pod_without_namespace:
  assumes "Pod (NewFilterFromURLQuery query) \<noteq> []"
      and "Namespace (NewFilterFromURLQuery query) = []"
  shows "HandleFunc aq query =
           (HttpError ''With a pod name, namespace must be provided'' 400, [])"
  using assms by (simp add: HandleFunc_def Let_def StatusBadRequest_def)

text \<open>The theorem at the request \<open>?pod=nginx\<close>.\<close>

theorem HandleFunc_pod_without_namespace_witness:
  "Pod (NewFilterFromURLQuery podOnlyQuery) \<noteq> [] \<and>
   Namespace (NewFilterFromURLQuery podOnlyQuery) = [] \<and>
   HandleFunc exampleQuerier podOnlyQuery =
     (HttpError ''With a pod name, namespace must be provided'' 400, [])"
proof -
  have p: "Pod (NewFilterFromURLQuery podOnlyQuery) \<noteq> []"
    by code_simp
  have n: "Namespace (NewFilterFromURLQuery podOnlyQuery) = []"
    by code_simp
  show ?thesis
    using p n HandleFunc_pod_without_namespace [OF p n, of exampleQuerier] by (intro conjI)
qed

section \<open>Flushing the connection store\<close>

lemma BuildFlowRecords_present:
  "GetConnByKey s key = Some conn \<Longrightarrow>
     GetFlowRecordByConnKey (snd (BuildFlowRecords s)) key = Some \<lparr>Conn = conn\<rparr>"
  by (simp add: GetConnByKey_def GetFlowRecordByConnKey_def BuildFlowRecords_def)

lemma BuildFlowRecords_store:
  "GetConnByKey (snd (BuildFlowRecords s)) key = GetConnByKey s key"
  by (simp add: GetConnByKey_def BuildFlowRecords_def)

text \<open>The last step of the integration test: building again after the flush keeps the
  records of the connections that are gone.\<close>

lemma BuildFlowRecords_after_flush:
  "GetFlowRecordByConnKey (snd (BuildFlowRecords (FlushConnectionStore s))) key =
     GetFlowRecordByConnKey s key"
  by (simp add: GetFlowRecordByConnKey_def BuildFlowRecords_def FlushConnectionStore_def)

text \<open>
  C4. Flush and rebuild are independent. \<open>BuildFlowRecords\<close> makes a flow record for
  every connection in the store. After \<open>FlushConnectionStore\<close> the lookup
  \<open>GetConnByKey\<close> finds nothing for a key that was present (nor for any other), while
  the flow record built before the flush is still returned by
  \<open>GetFlowRecordByConnKey\<close>: in any state, the flush empties the store and leaves every
  flow record as it was, so the record stays until a later step changes the records.
\<close>

theorem flush_keeps_flow_records:
  assumes "GetConnByKey s key = Some conn"
  shows "GetFlowRecordByConnKey (snd (BuildFlowRecords s)) key = Some \<lparr>Conn = conn\<rparr> \<and>
         GetConnByKey (FlushConnectionStore (snd (BuildFlowRecords s))) key = None \<and>
         GetFlowRecordByConnKey (FlushConnectionStore (snd (BuildFlowRecords s))) key =
           Some \<lparr>Conn = conn\<rparr> \<and>
         (\<forall>s' key'.
            GetConnByKey (FlushConnectionStore s') key' = None \<and>
            GetFlowRecordByConnKey (FlushConnectionStore s') key' =
              GetFlowRecordByConnKey s' key')"
  using assms
  by (simp add: GetConnByKey_def GetFlowRecordByConnKey_def FlushConnectionStore_def
      BuildFlowRecords_def)

text \<open>
  The theorem on the store of the integration test: after \<open>BuildFlowRecords\<close> and the
  flush, the connection 1.2.3.4:65280 to 4.3.2.1:255 is gone from the store and its
  flow record is still there.
\<close>

theorem flush_keeps_flow_records_witness:
  "GetConnByKey testExporter (NewConnectionKey testConn1) = Some testConn1 \<and>
   GetFlowRecordByConnKey (snd (BuildFlowRecords testExporter)) (NewConnectionKey testConn1) =
     Some \<lparr>Conn = testConn1\<rparr> \<and>
   GetConnByKey (FlushConnectionStore (snd (BuildFlowRecords testExporter)))
     (NewConnectionKey testConn1) = None \<and>
   GetFlowRecordByConnKey (FlushConnectionStore (snd (BuildFlowRecords testExporter)))
     (NewConnectionKey testConn1) = Some \<lparr>Conn = testConn1\<rparr>"
proof -
  have c: "GetConnByKey testExporter (NewConnectionKey testConn1) = Some testConn1"
    by code_simp
  note t = flush_keeps_flow_records [OF c]
  show ?thesis
    using c t [THEN conjunct1] t [THEN conjunct2, THEN conjunct1]
      t [THEN conjunct2, THEN conjunct2, THEN conjunct1]
    by (intro conjI)
qed

end
